theory Spec2Isabelle
  imports Complex_Main "HOL-Library.Multiset" "HOL-Library.Sublist"
begin

section \<open>Python strings\<close>

text \<open>
  Strings are \<^typ>\<open>string\<close>; a \<^typ>\<open>char\<close> stands for the code point of its number
  (U+0000 to U+00FF). Python's unbounded integers are \<^typ>\<open>int\<close>.
  \<open>py_isspace\<close> is \<^verbatim>\<open>str.isspace\<close> on these code points (the characters
  \<^verbatim>\<open>str.strip()\<close> removes): TAB, LF, VT, FF, CR, FS, GS, RS, US, the space, NEL (U+0085)
  and the no-break space (U+00A0).
\<close>

definition py_isspace :: "char \<Rightarrow> bool" where
  "py_isspace c = (of_char c \<in> {9, 10, 11, 12, 13, 28, 29, 30, 31, 32, 133, 160 :: nat})"

definition py_strip :: "string \<Rightarrow> string" where
  "py_strip s = rev (dropWhile py_isspace (rev (dropWhile py_isspace s)))"

text \<open>
  \<^verbatim>\<open>str.lower()\<close> on one code point: the capital letters A to Z, and U+00C0 to U+00DE
  but for the multiplication sign U+00D7, move up by 32.
\<close>

definition py_lower_char :: "char \<Rightarrow> char" where
  "py_lower_char c =
     (if (65 \<le> (of_char c :: nat) \<and> (of_char c :: nat) \<le> 90)
         \<or> (192 \<le> (of_char c :: nat) \<and> (of_char c :: nat) \<le> 222 \<and> (of_char c :: nat) \<noteq> 215)
      then char_of (of_char c + 32 :: nat) else c)"

definition py_lower :: "string \<Rightarrow> string" where
  "py_lower s = map py_lower_char s"

definition py_endswith :: "string \<Rightarrow> string \<Rightarrow> bool" where
  "py_endswith s suf = (length suf \<le> length s \<and> drop (length s - length suf) s = suf)"

text \<open>\<^verbatim>\<open>sub in s\<close> on strings.\<close>

fun py_in :: "string \<Rightarrow> string \<Rightarrow> bool" where
  "py_in sub [] = (sub = [])"
| "py_in sub (c # cs) = (take (length sub) (c # cs) = sub \<or> py_in sub cs)"

text \<open>\<^verbatim>\<open>str(n)\<close> for an integer, as the f-strings of the source print it.\<close>

fun str_nat :: "nat \<Rightarrow> string" where
  "str_nat n =
     (if n < 10 then [char_of (48 + n)] else str_nat (n div 10) @ [char_of (48 + n mod 10)])"

declare str_nat.simps [simp del]

definition str_int :: "int \<Rightarrow> string" where
  "str_int i = (if i < 0 then CHR ''-'' # str_nat (nat (- i)) else str_nat (nat i))"

text \<open>\<^verbatim>\<open>sep.join(parts)\<close>.\<close>

fun py_join :: "string \<Rightarrow> string list \<Rightarrow> string" where
  "py_join sep [] = []"
| "py_join sep [p] = p"
| "py_join sep (p # q # ps) = p @ sep @ py_join sep (q # ps)"

section \<open>Errors\<close>

text \<open>
  Every exception the modelled code can raise or receive from a collaborator is a value.
  \<open>HTTPException\<close> carries the status code and the detail; the others carry their message.
\<close>

datatype error =
    HTTPException int string
  | KeyError string
  | IndexError string
  | ValueError string
  | ProviderError string
  | DataError string
  | IntegrityError string
  | FileError string

text \<open>\<^verbatim>\<open>str(e)\<close>.\<close>

fun str_exc :: "error \<Rightarrow> string" where
  "str_exc (HTTPException code detail) = str_int code @ '': '' @ detail"
| "str_exc (KeyError k) = [CHR 0x27] @ k @ [CHR 0x27]"
| "str_exc (IndexError m) = m"
| "str_exc (ValueError m) = m"
| "str_exc (ProviderError m) = m"
| "str_exc (DataError m) = m"
| "str_exc (IntegrityError m) = m"
| "str_exc (FileError m) = m"

section \<open>document\_processor.py\<close>

text \<open>
  A PDF as \<^verbatim>\<open>PdfReader\<close> presents it: a list of pages. A page carries what
  \<^verbatim>\<open>page.extract_text()\<close> returns and the outcome of the OCR path
  (\<^verbatim>\<open>convert_from_path\<close> followed by \<^verbatim>\<open>pytesseract.image_to_string\<close> on the first image).
\<close>

datatype ocr_result =
    OcrException string
  | OcrNoImages
  | OcrText string

record pdf_page =
  pg_extract_text :: string
  pg_ocr :: ocr_result

text \<open>What \<^verbatim>\<open>PdfReader(path)\<close> makes of a file: it raises, or it has pages.\<close>

datatype pdf_file = Unreadable string | Pdf "pdf_page list"

text \<open>
  The body of the page loop of \<^verbatim>\<open>extract_text_from_pdf\<close>: the text appended for the page
  enumerated as \<open>page_num\<close> (0-based).
\<close>

definition extract_page_text :: "bool \<Rightarrow> int \<Rightarrow> pdf_page \<Rightarrow> string" where
  "extract_page_text poppler_available page_num page =
     (let text = pg_extract_text page in
      if py_strip text = [] \<and> poppler_available then
        (case pg_ocr page of
           OcrException e \<Rightarrow> ''[Failed to extract text from page '' @ str_int (page_num + 1) @ '']''
         | OcrNoImages \<Rightarrow> text
         | OcrText t \<Rightarrow> t)
      else if py_strip text = [] \<and> \<not> poppler_available then
        ''[Text extraction failed for page '' @ str_int (page_num + 1)
          @ ''. Poppler not available for OCR.]''
      else text)"

fun extract_pages :: "bool \<Rightarrow> string list \<Rightarrow> int \<Rightarrow> pdf_page list \<Rightarrow> string list" where
  "extract_pages poppler_available page_texts page_num [] = page_texts"
| "extract_pages poppler_available page_texts page_num (page # pages) =
     extract_pages poppler_available
       (page_texts @ [extract_page_text poppler_available page_num page]) (page_num + 1) pages"

text \<open>
  \<^verbatim>\<open>extract_text_from_pdf\<close>, given what \<^verbatim>\<open>PdfReader(pdf_path)\<close> yields and whether
  \<^verbatim>\<open>check_poppler_installed() and PDF2IMAGE_AVAILABLE\<close> holds.
\<close>

definition extract_text_from_pdf :: "bool \<Rightarrow> pdf_file \<Rightarrow> error + (string list \<times> int)" where
  "extract_text_from_pdf poppler_available pdf =
     (case pdf of
        Unreadable msg \<Rightarrow> Inl (FileError msg)
      | Pdf pages \<Rightarrow>
          (let total_pages = int (length pages);
               page_texts = extract_pages poppler_available [] 0 pages
           in Inr (page_texts, total_pages)))"

text \<open>
  The chunk dictionaries of \<^verbatim>\<open>chunk_text\<close>; the key \<^verbatim>\<open>"embedding"\<close> is absent until
  \<^verbatim>\<open>create_embeddings\<close> sets it.
\<close>

record chunk =
  ck_text :: string
  ck_page_number :: int
  ck_chunk_index :: int
  ck_embedding :: "real list option"

text \<open>The inner loop: \<^verbatim>\<open>for i, chunk_text in enumerate(page_chunks): chunks.append(...)\<close>.\<close>

fun append_page_chunks :: "chunk list \<Rightarrow> int \<Rightarrow> int \<Rightarrow> string list \<Rightarrow> chunk list" where
  "append_page_chunks chunks page_num i [] = chunks"
| "append_page_chunks chunks page_num i (t # page_chunks) =
     append_page_chunks
       (chunks @ [\<lparr>ck_text = t, ck_page_number = page_num + 1, ck_chunk_index = i,
                   ck_embedding = None\<rparr>])
       page_num (i + 1) page_chunks"

text \<open>
  The outer loop over \<^verbatim>\<open>enumerate(texts)\<close>. \<open>split_text\<close> is the
  \<^verbatim>\<open>RecursiveCharacterTextSplitter\<close> built for the given chunk size and overlap (a library
  outside the repository, taken as a parameter).
\<close>

fun chunk_pages :: "(string \<Rightarrow> string list) \<Rightarrow> chunk list \<Rightarrow> int \<Rightarrow> string list \<Rightarrow> chunk list" where
  "chunk_pages split_text chunks page_num [] = chunks"
| "chunk_pages split_text chunks page_num (page_text # texts) =
     (if page_text = [] then chunk_pages split_text chunks (page_num + 1) texts
      else chunk_pages split_text
             (append_page_chunks chunks page_num 0 (split_text page_text)) (page_num + 1) texts)"

text \<open>
  \<^verbatim>\<open>chunk_text\<close>. The constructor of the splitter raises ValueError when the overlap
  exceeds the chunk size, before any page is read.
\<close>

definition chunk_text ::
  "(int \<Rightarrow> int \<Rightarrow> string \<Rightarrow> string list) \<Rightarrow> string list \<Rightarrow> int \<Rightarrow> int \<Rightarrow> error + chunk list" where
  "chunk_text split_fn texts chunk_size chunk_overlap =
     (if chunk_overlap > chunk_size then
        Inl (ValueError (''Got a larger chunk overlap ('' @ str_int chunk_overlap
                          @ '') than chunk size ('' @ str_int chunk_size
                          @ ''), should be smaller.''))
      else Inr (chunk_pages (split_fn chunk_size chunk_overlap) [] 0 texts))"

text \<open>
  The records one page contributes, and the records of a sequence of pages starting at the
  0-based position \<open>page_num\<close>: the loops of \<^verbatim>\<open>chunk_text\<close> written as comprehensions
  (used to state what the loops compute).
\<close>

definition page_records :: "int \<Rightarrow> string list \<Rightarrow> chunk list" where
  "page_records page_num pieces =
     map (\<lambda>(j, t). \<lparr>ck_text = t, ck_page_number = page_num + 1, ck_chunk_index = int j,
                     ck_embedding = None\<rparr>) (enumerate 0 pieces)"

fun pages_records :: "(string \<Rightarrow> string list) \<Rightarrow> int \<Rightarrow> string list \<Rightarrow> chunk list" where
  "pages_records split_text page_num [] = []"
| "pages_records split_text page_num (t # texts) =
     (if t = [] then [] else page_records page_num (split_text t))
       @ pages_records split_text (page_num + 1) texts"


text \<open>
  A splitter used in examples: the whole stripped text as one piece, none for a blank text
  (what the library returns for a text shorter than the chunk size).
\<close>

definition one_piece_splitter :: "int \<Rightarrow> int \<Rightarrow> string \<Rightarrow> string list" where
  "one_piece_splitter chunk_size chunk_overlap t = (if py_strip t = [] then [] else [py_strip t])"

text \<open>
  \<^verbatim>\<open>create_embeddings\<close>: the loop \<^verbatim>\<open>for i, embedding in enumerate(chunk_embeddings):
  chunks[i]["embedding"] = embedding\<close>. An index past the end of \<open>chunks\<close> raises IndexError.
\<close>

fun assign_embeddings :: "nat \<Rightarrow> real list list \<Rightarrow> chunk list \<Rightarrow> error + chunk list" where
  "assign_embeddings i [] chunks = Inr chunks"
| "assign_embeddings i (embedding # chunk_embeddings) chunks =
     (if i < length chunks
      then assign_embeddings (Suc i) chunk_embeddings
             (chunks[i := (chunks ! i)\<lparr>ck_embedding := Some embedding\<rparr>])
      else Inl (IndexError ''list index out of range''))"

section \<open>database.py: the tables\<close>

text \<open>
  The rows of the two tables. \<open>upload_timestamp\<close> (filled by the database clock) is left
  out: no modelled operation reads it.
\<close>

record Document =
  doc_id :: int
  doc_filename :: string
  doc_total_pages :: int

record DocumentChunk =
  dc_id :: int
  dc_document_id :: int
  dc_text :: string
  dc_chunk_index :: int
  dc_page_number :: int
  dc_embedding :: "real list"

section \<open>The collaborators and the world\<close>

text \<open>
  The external collaborators, as parameters: the embedding provider (each call returns
  or raises), the chat completion provider (called with the fixed system prompt, model,
  temperature and token bound of \<^verbatim>\<open>generate_answer\<close>; the argument is the user message),
  the text splitter, the database (the sort key it derives from its floating-point
  distance \<^verbatim>\<open><=>\<close> of two vectors, whatever it computes, and its execution of
  \<^verbatim>\<open>ORDER BY key LIMIT k\<close> over a table), the presence of \<^verbatim>\<open>pdftoppm\<close> and
  \<^verbatim>\<open>pdf2image\<close>, and the names of temporary files.
\<close>

record env =
  embed_query :: "string \<Rightarrow> error + real list"
  embed_documents :: "string list \<Rightarrow> error + real list list"
  chat_completion :: "string \<Rightarrow> error + string"
  splitter :: "int \<Rightarrow> int \<Rightarrow> string \<Rightarrow> string list"
  distance_key :: "real list \<Rightarrow> real list \<Rightarrow> real"
  order_by_limit :: "(DocumentChunk \<Rightarrow> real) \<Rightarrow> nat \<Rightarrow> DocumentChunk list \<Rightarrow> DocumentChunk list"
  pdftoppm_in_path :: bool
  pdf2image_available :: bool
  mktemp :: "nat \<Rightarrow> string"

text \<open>
  What SQL promises of \<^verbatim>\<open>ORDER BY key LIMIT k\<close>: the first \<open>k\<close> rows of the table put in
  some non-decreasing order of the key, each row once. The order among rows of equal key
  is the engine's choice, and may change with \<open>k\<close>.
\<close>

definition sql_order_by_limit :: "(('row \<Rightarrow> real) \<Rightarrow> nat \<Rightarrow> 'row list \<Rightarrow> 'row list) \<Rightarrow> bool" where
  "sql_order_by_limit obl =
     (\<forall>key k rows. \<exists>ordered. mset ordered = mset rows \<and> sorted (map key ordered)
                       \<and> obl key k rows = take k ordered)"

text \<open>An engine that sorts the table with a stable sort and cuts the result.\<close>

definition stable_engine :: "('row \<Rightarrow> real) \<Rightarrow> nat \<Rightarrow> 'row list \<Rightarrow> 'row list" where
  "stable_engine key k rows = take k (sort_key key rows)"








text \<open>The external calls a request makes, in order.\<close>

datatype call =
    EmbedQuery string
  | EmbedDocuments "string list"
  | ChatCompletion string

text \<open>
  The world: the two tables in insertion order with their id sequences, the temporary
  files that exist (path and content), the number of temporary files created so far, and
  the log of external calls.
\<close>

record world =
  w_documents :: "Document list"
  w_document_chunks :: "DocumentChunk list"
  w_next_document_id :: int
  w_next_chunk_id :: int
  w_temp_files :: "(string \<times> pdf_file) list"
  w_temp_counter :: nat
  w_calls :: "call list"

section \<open>database.py: the operations\<close>

text \<open>The dimension of the column \<^verbatim>\<open>Vector(1536)\<close>.\<close>

definition EMBEDDING_DIM :: nat where
  "EMBEDDING_DIM = 1536"

definition store_document :: "string \<Rightarrow> int \<Rightarrow> world \<Rightarrow> (error + Document) \<times> world" where
  "store_document filename total_pages w =
     (let document = \<lparr>doc_id = w_next_document_id w, doc_filename = filename,
                       doc_total_pages = total_pages\<rparr>
      in (Inr document,
          w\<lparr>w_documents := w_documents w @ [document],
            w_next_document_id := w_next_document_id w + 1\<rparr>))"

text \<open>
  \<^verbatim>\<open>store_chunk\<close>: the insert is refused, and nothing is committed, when the document id
  has no row (the foreign key) or the embedding has not the column's dimension.
\<close>

definition store_chunk ::
  "int \<Rightarrow> string \<Rightarrow> int \<Rightarrow> int \<Rightarrow> real list \<Rightarrow> world \<Rightarrow> (error + DocumentChunk) \<times> world" where
  "store_chunk document_id text' chunk_index page_number embedding w =
     (if document_id \<notin> doc_id ` set (w_documents w) then
        (Inl (IntegrityError ''document_chunks_document_id_fkey''), w)
      else if length embedding \<noteq> EMBEDDING_DIM then
        (Inl (DataError (''expected 1536 dimensions, not '' @ str_nat (length embedding))), w)
      else
        (let chunk = \<lparr>dc_id = w_next_chunk_id w, dc_document_id = document_id, dc_text = text',
                       dc_chunk_index = chunk_index, dc_page_number = page_number,
                       dc_embedding = embedding\<rparr>
         in (Inr chunk,
             w\<lparr>w_document_chunks := w_document_chunks w @ [chunk],
               w_next_chunk_id := w_next_chunk_id w + 1\<rparr>)))"

text \<open>
  \<^verbatim>\<open>semantic_search\<close>: \<^verbatim>\<open>ORDER BY embedding <=> query LIMIT limit\<close> over the chunk table.
  The query names no second sort key. The database refuses a negative \<^verbatim>\<open>LIMIT\<close>; with
  \<^verbatim>\<open>LIMIT 0\<close> it reads no row; otherwise it computes the distance of every row, and
  refuses a row whose vector has not the dimension of the query.
\<close>

definition semantic_search ::
  "env \<Rightarrow> real list \<Rightarrow> int \<Rightarrow> world \<Rightarrow> error + DocumentChunk list" where
  "semantic_search env query_embedding limit w =
     (if limit < 0 then Inl (DataError ''LIMIT must not be negative'')
      else if limit = 0 then Inr []
      else
        (case find (\<lambda>c. length (dc_embedding c) \<noteq> length query_embedding)
                (w_document_chunks w) of
           Some c \<Rightarrow>
             Inl (DataError (''different vector dimensions '' @ str_nat (length (dc_embedding c))
                              @ '' and '' @ str_nat (length query_embedding)))
         | None \<Rightarrow>
             Inr (order_by_limit env (\<lambda>c. distance_key env (dc_embedding c) query_embedding)
                    (nat limit) (w_document_chunks w))))"

section \<open>rag.py\<close>

text \<open>The dictionaries \<^verbatim>\<open>retrieve_relevant_chunks\<close> and \<^verbatim>\<open>answer_query\<close> build.\<close>

record retrieved_chunk =
  rc_text :: string
  rc_document_id :: int
  rc_page_number :: int
  rc_chunk_index :: int

record source_entry =
  src_document_id :: int
  src_page_number :: int
  src_text_snippet :: string

record answer_result =
  ans_answer :: string
  ans_sources :: "source_entry list"

definition generate_query_embedding :: "env \<Rightarrow> string \<Rightarrow> world \<Rightarrow> (error + real list) \<times> world" where
  "generate_query_embedding env query w =
     (embed_query env query, w\<lparr>w_calls := w_calls w @ [EmbedQuery query]\<rparr>)"

definition format_result :: "DocumentChunk \<Rightarrow> retrieved_chunk" where
  "format_result chunk =
     \<lparr>rc_text = dc_text chunk, rc_document_id = dc_document_id chunk,
      rc_page_number = dc_page_number chunk, rc_chunk_index = dc_chunk_index chunk\<rparr>"

definition retrieve_relevant_chunks ::
  "env \<Rightarrow> string \<Rightarrow> int \<Rightarrow> world \<Rightarrow> (error + retrieved_chunk list) \<times> world" where
  "retrieve_relevant_chunks env query top_k w =
     (case generate_query_embedding env query w of
        (Inl e, w1) \<Rightarrow> (Inl e, w1)
      | (Inr query_embedding, w1) \<Rightarrow>
          (case semantic_search env query_embedding top_k w1 of
             Inl e \<Rightarrow> (Inl e, w1)
           | Inr chunks \<Rightarrow> (Inr (map format_result chunks), w1)))"

definition format_context :: "retrieved_chunk list \<Rightarrow> string" where
  "format_context chunks =
     py_join [CHR 0x0A, CHR 0x0A]
       (map (\<lambda>chunk. ''[Document '' @ str_int (rc_document_id chunk)
                        @ '', Page '' @ str_int (rc_page_number chunk)
                        @ '', Chunk '' @ str_int (rc_chunk_index chunk) @ '']'' @ [CHR 0x0A]
                        @ rc_text chunk @ [CHR 0x0A]) chunks)"

text \<open>The user message of the chat completion request.\<close>

definition user_message :: "string \<Rightarrow> retrieved_chunk list \<Rightarrow> string" where
  "user_message query chunks =
     ''Context:'' @ [CHR 0x0A] @ format_context chunks @ [CHR 0x0A, CHR 0x0A]
       @ ''Question: '' @ query"

definition generate_answer ::
  "env \<Rightarrow> string \<Rightarrow> retrieved_chunk list \<Rightarrow> world \<Rightarrow> (error + string) \<times> world" where
  "generate_answer env query chunks w =
     (chat_completion env (user_message query chunks),
      w\<lparr>w_calls := w_calls w @ [ChatCompletion (user_message query chunks)]\<rparr>)"

definition NO_INFORMATION :: string where
  "NO_INFORMATION =
     ''I couldn'' @ [CHR 0x27] @ ''t find any relevant information in the documents to answer your question.''"

definition format_source :: "retrieved_chunk \<Rightarrow> source_entry" where
  "format_source chunk =
     \<lparr>src_document_id = rc_document_id chunk,
      src_page_number = rc_page_number chunk,
      src_text_snippet =
        (if length (rc_text chunk) > 200 then take 200 (rc_text chunk) @ ''...''
         else rc_text chunk)\<rparr>"

definition answer_query :: "env \<Rightarrow> string \<Rightarrow> world \<Rightarrow> (error + answer_result) \<times> world" where
  "answer_query env query w =
     (case retrieve_relevant_chunks env query 5 w of
        (Inl e, w1) \<Rightarrow> (Inl e, w1)
      | (Inr chunks, w1) \<Rightarrow>
          (case (if chunks = [] then (Inr NO_INFORMATION, w1)
                 else generate_answer env query chunks w1) of
             (Inl e, w2) \<Rightarrow> (Inl e, w2)
           | (Inr answer, w2) \<Rightarrow>
               (Inr \<lparr>ans_answer = answer, ans_sources = map format_source chunks\<rparr>, w2)))"

section \<open>document\_processor.py: embedding and processing\<close>

record processed_doc =
  pd_filename :: string
  pd_total_pages :: int
  pd_chunks :: "chunk list"

definition check_poppler_installed :: "env \<Rightarrow> bool" where
  "check_poppler_installed env = pdftoppm_in_path env"

definition create_embeddings :: "env \<Rightarrow> chunk list \<Rightarrow> world \<Rightarrow> (error + chunk list) \<times> world" where
  "create_embeddings env chunks w =
     (let texts = map ck_text chunks;
          w1 = w\<lparr>w_calls := w_calls w @ [EmbedDocuments texts]\<rparr>
      in case embed_documents env texts of
           Inl e \<Rightarrow> (Inl e, w1)
         | Inr chunk_embeddings \<Rightarrow> (assign_embeddings 0 chunk_embeddings chunks, w1))"

text \<open>\<^verbatim>\<open>Path(pdf_path).name\<close>: what follows the last slash.\<close>

definition path_name :: "string \<Rightarrow> string" where
  "path_name pdf_path = rev (takeWhile (\<lambda>c. c \<noteq> CHR ''/'') (rev pdf_path))"

text \<open>
  \<^verbatim>\<open>process_pdf\<close>. \<^verbatim>\<open>PdfReader(pdf_path)\<close> reads the file at the path; a path with no file
  raises. The warnings printed when Poppler is missing are not modelled.
\<close>

definition process_pdf :: "env \<Rightarrow> string \<Rightarrow> world \<Rightarrow> (error + processed_doc) \<times> world" where
  "process_pdf env pdf_path w =
     (case map_of (w_temp_files w) pdf_path of
        None \<Rightarrow> (Inl (FileError (''No such file or directory: '' @ pdf_path)), w)
      | Some pdf \<Rightarrow>
          (case extract_text_from_pdf (check_poppler_installed env \<and> pdf2image_available env) pdf of
             Inl e \<Rightarrow> (Inl e, w)
           | Inr (page_texts, total_pages) \<Rightarrow>
               (case chunk_text (splitter env) page_texts 1000 200 of
                  Inl e \<Rightarrow> (Inl e, w)
                | Inr chunks \<Rightarrow>
                    (case create_embeddings env chunks w of
                       (Inl e, w1) \<Rightarrow> (Inl e, w1)
                     | (Inr embedded, w1) \<Rightarrow>
                         (Inr \<lparr>pd_filename = path_name pdf_path, pd_total_pages = total_pages,
                               pd_chunks = embedded\<rparr>, w1)))))"

section \<open>main.py: the ingestion endpoint\<close>

text \<open>An uploaded file: its name and what its bytes are to \<^verbatim>\<open>PdfReader\<close>.\<close>

record UploadFile =
  uf_filename :: string
  uf_content :: pdf_file

record doc_summary =
  ds_filename :: string
  ds_total_pages :: int
  ds_total_chunks :: int

record ingest_response =
  ir_message :: string
  ir_documents :: "doc_summary list"

text \<open>The loop that checks the file types: the first name that is not a PDF's raises.\<close>

fun check_file_types :: "UploadFile list \<Rightarrow> error option" where
  "check_file_types [] = None"
| "check_file_types (file # files) =
     (if \<not> py_endswith (py_lower (uf_filename file)) ''.pdf''
      then Some (HTTPException 400 (''File '' @ uf_filename file @ '' is not a PDF''))
      else check_file_types files)"

text \<open>
  The loop over the chunks of a processed document. The arguments of \<^verbatim>\<open>store_chunk\<close> are
  evaluated first: a chunk with no \<^verbatim>\<open>"embedding"\<close> key raises KeyError.
\<close>

fun store_chunks :: "int \<Rightarrow> chunk list \<Rightarrow> world \<Rightarrow> (error + unit) \<times> world" where
  "store_chunks document_id [] w = (Inr (), w)"
| "store_chunks document_id (chunk # chunks) w =
     (case ck_embedding chunk of
        None \<Rightarrow> (Inl (KeyError ''embedding''), w)
      | Some embedding \<Rightarrow>
          (case store_chunk document_id (ck_text chunk) (ck_chunk_index chunk)
                  (ck_page_number chunk) embedding w of
             (Inl e, w1) \<Rightarrow> (Inl e, w1)
           | (Inr stored, w1) \<Rightarrow> store_chunks document_id chunks w1))"

text \<open>The \<^verbatim>\<open>try\<close> block of the loop body.\<close>

definition process_and_store :: "env \<Rightarrow> string \<Rightarrow> world \<Rightarrow> (error + doc_summary) \<times> world" where
  "process_and_store env temp_path w =
     (case process_pdf env temp_path w of
        (Inl e, w1) \<Rightarrow> (Inl e, w1)
      | (Inr processed_doc, w1) \<Rightarrow>
          (case store_document (pd_filename processed_doc) (pd_total_pages processed_doc) w1 of
             (Inl e, w2) \<Rightarrow> (Inl e, w2)
           | (Inr document, w2) \<Rightarrow>
               (case store_chunks (doc_id document) (pd_chunks processed_doc) w2 of
                  (Inl e, w3) \<Rightarrow> (Inl e, w3)
                | (Inr done, w3) \<Rightarrow>
                    (Inr \<lparr>ds_filename = pd_filename processed_doc,
                          ds_total_pages = pd_total_pages processed_doc,
                          ds_total_chunks = int (length (pd_chunks processed_doc))\<rparr>, w3))))"

text \<open>The \<^verbatim>\<open>except\<close> block: the detail of the response with status 500.\<close>

definition error_detail :: "string \<Rightarrow> error \<Rightarrow> string" where
  "error_detail filename e =
     (let error_message = str_exc e;
          error_message =
            (if py_in ''poppler'' (py_lower error_message)
             then error_message @ ''. Is poppler installed and in PATH? Install with ''
                    @ [CHR 0x27] @ ''brew install poppler'' @ [CHR 0x27] @ '' on macOS or ''
                    @ [CHR 0x27] @ ''apt-get install poppler-utils'' @ [CHR 0x27] @ '' on Linux.''
             else error_message)
      in ''Error processing '' @ filename @ '': '' @ error_message)"

text \<open>
  The loop body for one file: write the temporary file, run the \<^verbatim>\<open>try\<close> block, turn an
  exception into the 500 response, and unlink the temporary file in every case.
\<close>

definition ingest_file :: "env \<Rightarrow> UploadFile \<Rightarrow> world \<Rightarrow> (error + doc_summary) \<times> world" where
  "ingest_file env file w =
     (let temp_path = mktemp env (w_temp_counter w);
          w1 = w\<lparr>w_temp_files := (temp_path, uf_content file) # w_temp_files w,
                 w_temp_counter := Suc (w_temp_counter w)\<rparr>;
          (r, w2) = process_and_store env temp_path w1;
          w3 = w2\<lparr>w_temp_files := filter (\<lambda>(path, content). path \<noteq> temp_path) (w_temp_files w2)\<rparr>
      in case r of
           Inl e \<Rightarrow> (Inl (HTTPException 500 (error_detail (uf_filename file) e)), w3)
         | Inr summary \<Rightarrow> (Inr summary, w3))"

fun ingest_files ::
  "env \<Rightarrow> doc_summary list \<Rightarrow> UploadFile list \<Rightarrow> world \<Rightarrow> (error + doc_summary list) \<times> world" where
  "ingest_files env processed_docs [] w = (Inr processed_docs, w)"
| "ingest_files env processed_docs (file # files) w =
     (case ingest_file env file w of
        (Inl e, w1) \<Rightarrow> (Inl e, w1)
      | (Inr summary, w1) \<Rightarrow> ingest_files env (processed_docs @ [summary]) files w1)"

definition ingest_documents ::
  "env \<Rightarrow> UploadFile list \<Rightarrow> world \<Rightarrow> (error + ingest_response) \<times> world" where
  "ingest_documents env files w =
     (if length files < 2 then
        (Inl (HTTPException 400 ''Please upload at least 2 PDF files''), w)
      else
        (case check_file_types files of
           Some e \<Rightarrow> (Inl e, w)
         | None \<Rightarrow>
             (case ingest_files env [] files w of
                (Inl e, w1) \<Rightarrow> (Inl e, w1)
              | (Inr processed_docs, w1) \<Rightarrow>
                  (Inr \<lparr>ir_message = ''Successfully processed ''
                                        @ str_nat (length processed_docs) @ '' documents'',
                        ir_documents = processed_docs\<rparr>, w1))))"

section \<open>Example collaborators and worlds\<close>

definition empty_world :: world where
  "empty_world =
     \<lparr>w_documents = [], w_document_chunks = [], w_next_document_id = 1, w_next_chunk_id = 1,
      w_temp_files = [], w_temp_counter = 0, w_calls = []\<rparr>"

text \<open>An example sort key: 0 between equal vectors, 1 between different ones.\<close>

definition example_distance :: "real list \<Rightarrow> real list \<Rightarrow> real" where
  "example_distance a b = (if a = b then 0 else 1)"

text \<open>
  Collaborators for the examples: every text is embedded as the given vector, the chat
  provider answers with a fixed text, pieces are cut by \<open>one_piece_splitter\<close>, no OCR tools
  are present, and the database sorts with the given engine.
\<close>

definition example_env ::
  "((DocumentChunk \<Rightarrow> real) \<Rightarrow> nat \<Rightarrow> DocumentChunk list \<Rightarrow> DocumentChunk list) \<Rightarrow> (string \<Rightarrow> real list) \<Rightarrow> env" where
  "example_env engine embedder =
     \<lparr>embed_query = (\<lambda>q. Inr (embedder q)),
      embed_documents = (\<lambda>texts. Inr (map embedder texts)),
      chat_completion = (\<lambda>m. Inr ''An answer.''),
      splitter = one_piece_splitter,
      distance_key = example_distance,
      order_by_limit = engine,
      pdftoppm_in_path = False,
      pdf2image_available = False,
      mktemp = (\<lambda>n. ''/tmp/tmp'' @ str_nat n @ ''.pdf'')\<rparr>"

text \<open>
  Two orthogonal unit vectors of the column's dimension, and an embedding that maps a text
  beginning with ``Gamma'' to the second and every other text to the first.
\<close>

definition unit0 :: "real list" where
  "unit0 = 1 # 0 # replicate 1534 0"

definition unit1 :: "real list" where
  "unit1 = 0 # 1 # replicate 1534 0"

definition example_embedding :: "string \<Rightarrow> real list" where
  "example_embedding t = (if take 5 t = ''Gamma'' then unit1 else unit0)"

text \<open>
  The store after two documents of one chunk each were written, the chunks with the given
  embeddings: document 1 (``Alpha Beta'') first, document 2 (``Gamma Delta'') second.
\<close>

definition two_doc_world :: "real list \<Rightarrow> real list \<Rightarrow> world" where
  "two_doc_world e1 e2 =
     snd (store_chunk 2 ''Gamma Delta'' 0 1 e2
       (snd (store_document ''tmpB.pdf'' 1
         (snd (store_chunk 1 ''Alpha Beta'' 0 1 e1
           (snd (store_document ''tmpA.pdf'' 1 empty_world)))))))"

definition chunk_A :: "real list \<Rightarrow> DocumentChunk" where
  "chunk_A e = \<lparr>dc_id = 1, dc_document_id = 1, dc_text = ''Alpha Beta'', dc_chunk_index = 0,
                dc_page_number = 1, dc_embedding = e\<rparr>"

definition chunk_B :: "real list \<Rightarrow> DocumentChunk" where
  "chunk_B e = \<lparr>dc_id = 2, dc_document_id = 2, dc_text = ''Gamma Delta'', dc_chunk_index = 0,
                dc_page_number = 1, dc_embedding = e\<rparr>"

text \<open>The store after one document with one chunk of the given text was written.\<close>

definition one_chunk_world :: "string \<Rightarrow> real list \<Rightarrow> world" where
  "one_chunk_world chunk_text' e =
     snd (store_chunk 1 chunk_text' 0 1 e (snd (store_document ''tmpA.pdf'' 1 empty_world)))"

text \<open>The chunk rows of a document.\<close>

definition chunks_of :: "int \<Rightarrow> DocumentChunk list \<Rightarrow> DocumentChunk list" where
  "chunks_of document_id rows = filter (\<lambda>c. dc_document_id c = document_id) rows"






definition tied_chunk :: "int \<Rightarrow> DocumentChunk" where
  "tied_chunk i = \<lparr>dc_id = i, dc_document_id = 1, dc_text = ''Alpha Beta'', dc_chunk_index = 0,
                   dc_page_number = i, dc_embedding = unit0\<rparr>"

section \<open>Strings: digits\<close>

lemma char_of_digits:
  "char_of (48 :: nat) = CHR ''0''" "char_of (49 :: nat) = CHR ''1''"
  "char_of (50 :: nat) = CHR ''2''" "char_of (51 :: nat) = CHR ''3''"
  "char_of (52 :: nat) = CHR ''4''" "char_of (53 :: nat) = CHR ''5''"
  "char_of (54 :: nat) = CHR ''6''" "char_of (55 :: nat) = CHR ''7''"
  "char_of (56 :: nat) = CHR ''8''" "char_of (57 :: nat) = CHR ''9''"
  by code_simp+

section \<open>The example worlds\<close>

lemma length_units: "length unit0 = 1536" "length unit1 = 1536"
  by (simp_all add: unit0_def unit1_def)


lemma length_example_embedding [simp]: "length (example_embedding t) = 1536"
  by (simp add: example_embedding_def length_units)

lemma two_doc_world_eq:
  assumes "length e1 = 1536" and "length e2 = 1536"
  shows "two_doc_world e1 e2 =
     \<lparr>w_documents = [\<lparr>doc_id = 1, doc_filename = ''tmpA.pdf'', doc_total_pages = 1\<rparr>,
                      \<lparr>doc_id = 2, doc_filename = ''tmpB.pdf'', doc_total_pages = 1\<rparr>],
      w_document_chunks = [chunk_A e1, chunk_B e2],
      w_next_document_id = 3, w_next_chunk_id = 3,
      w_temp_files = [], w_temp_counter = 0, w_calls = []\<rparr>"
  using assms
  by (simp add: two_doc_world_def store_document_def store_chunk_def empty_world_def
      EMBEDDING_DIM_def chunk_A_def chunk_B_def Let_def)

lemma example_env_fields [simp]:
  "order_by_limit (example_env engine embedder) = engine"
  "distance_key (example_env engine embedder) = example_distance"
  "embed_query (example_env engine embedder) q = Inr (embedder q)"
  "embed_documents (example_env engine embedder) texts = Inr (map embedder texts)"
  "chat_completion (example_env engine embedder) m = Inr ''An answer.''"
  "splitter (example_env engine embedder) = one_piece_splitter"
  "pdftoppm_in_path (example_env engine embedder) = False"
  "pdf2image_available (example_env engine embedder) = False"
  "mktemp (example_env engine embedder) n = ''/tmp/tmp'' @ str_nat n @ ''.pdf''"
  by (simp_all add: example_env_def)


lemma dc_embedding_tied_chunk [simp]: "dc_embedding (tied_chunk i) = unit0"
  by (simp add: tied_chunk_def)


section \<open>Strings: stripping\<close>








section \<open>The Chunker\<close>

lemma append_page_chunks_eq:
  "append_page_chunks chunks p i ts =
     chunks @ map (\<lambda>(j, t). \<lparr>ck_text = t, ck_page_number = p + 1, ck_chunk_index = i + int j,
                     ck_embedding = None\<rparr>) (enumerate 0 ts)"
proof (induction ts arbitrary: chunks i)
  case Nil
  then show ?case by simp
next
  case (Cons t ts)
  show ?case
    by (simp add: Cons.IH enumerate_Suc_eq map_map comp_def case_prod_beta add.assoc)
qed

lemma append_page_chunks_records:
  "append_page_chunks chunks p 0 ts = chunks @ page_records p ts"
  by (simp add: append_page_chunks_eq page_records_def)

lemma chunk_pages_eq:
  "chunk_pages split_text chunks p texts = chunks @ pages_records split_text p texts"
  by (induction texts arbitrary: chunks p) (simp_all add: append_page_chunks_records)

lemma page_number_page_records:
  "c \<in> set (page_records p ts) \<Longrightarrow> ck_page_number c = p + 1"
  by (auto simp: page_records_def)

lemma filter_page_records_same:
  "filter (\<lambda>c. ck_page_number c = p + 1) (page_records p ts) = page_records p ts"
  by (rule filter_True) (simp add: page_number_page_records)

lemma filter_page_records_other:
  "q \<noteq> p + 1 \<Longrightarrow> filter (\<lambda>c. ck_page_number c = q) (page_records p ts) = []"
  by (auto simp: filter_empty_conv dest: page_number_page_records)

lemma filter_pages_records_before:
  "q \<le> p \<Longrightarrow> filter (\<lambda>c. ck_page_number c = q) (pages_records split_text p texts) = []"
proof (induction texts arbitrary: p)
  case Nil
  then show ?case by simp
next
  case (Cons t texts)
  from Cons.prems have "q \<le> p + 1" "q \<noteq> p + 1" by simp_all
  then show ?case
    by (simp add: Cons.IH filter_page_records_other)
qed

lemma filter_pages_records:
  "k < length texts \<Longrightarrow>
   filter (\<lambda>c. ck_page_number c = p + int k + 1) (pages_records split_text p texts) =
     (if texts ! k = [] then [] else page_records (p + int k) (split_text (texts ! k)))"
proof (induction texts arbitrary: p k)
  case Nil
  then show ?case by simp
next
  case (Cons t texts)
  show ?case
  proof (cases k)
    case 0
    have "filter (\<lambda>c. ck_page_number c = p + 1) (pages_records split_text (p + 1) texts) = []"
      by (rule filter_pages_records_before) simp
    with 0 show ?thesis
      by (simp add: filter_page_records_same)
  next
    case (Suc k')
    with Cons.prems have k': "k' < length texts" by simp
    define P where "P = (\<lambda>c::chunk. ck_page_number c = p + int k + 1)"
    have eq: "p + int k + 1 = (p + 1) + int k' + 1" using Suc by simp
    have ne: "p + int k + 1 \<noteq> p + 1" using Suc by simp
    have tl: "filter P (pages_records split_text (p + 1) texts)
        = (if texts ! k' = [] then [] else page_records (p + 1 + int k') (split_text (texts ! k')))"
      unfolding P_def eq by (rule Cons.IH [OF k'])
    have hd: "filter P (page_records p (split_text t)) = []"
      unfolding P_def by (rule filter_page_records_other [OF ne])
    have idx: "p + int k = p + 1 + int k'" using Suc by simp
    have nth: "(t # texts) ! k = texts ! k'" using Suc by simp
    have "filter P (pages_records split_text p (t # texts))
        = (if (t # texts) ! k = [] then []
           else page_records (p + int k) (split_text ((t # texts) ! k)))"
      unfolding nth idx by (simp add: hd tl)
    then show ?thesis unfolding P_def .
  qed
qed

lemma chunk_index_page_records:
  "map ck_chunk_index (page_records p ts) = map int [0..<length ts]"
  by (simp add: page_records_def map_map comp_def case_prod_beta flip: map_map [of int fst, unfolded comp_def])

lemma text_page_records: "map ck_text (page_records p ts) = ts"
proof -
  have "map ck_text (page_records p ts) = map snd (enumerate 0 ts)"
    by (simp add: page_records_def comp_def case_prod_beta)
  then show ?thesis by simp
qed

lemma length_page_records: "length (page_records p ts) = length ts"
  by (simp add: page_records_def)

lemma page_number_pages_records:
  "c \<in> set (pages_records split_text p texts) \<Longrightarrow>
     p + 1 \<le> ck_page_number c \<and> ck_page_number c \<le> p + int (length texts)"
proof (induction texts arbitrary: p)
  case Nil
  then show ?case by simp
next
  case (Cons t texts)
  then show ?case
    by (fastforce dest: page_number_page_records split: if_splits)
qed

lemma distinct_keys_page_records:
  "distinct (map (\<lambda>c. (ck_page_number c, ck_chunk_index c)) (page_records p ts))"
proof -
  have "map (\<lambda>c. (ck_page_number c, ck_chunk_index c)) (page_records p ts)
      = map (\<lambda>j. (p + 1, int j)) [0..<length ts]"
    by (simp add: page_records_def comp_def case_prod_beta flip: map_map [of "\<lambda>j. (p + 1, int j)" fst, unfolded comp_def])
  moreover have "distinct (map (\<lambda>j. (p + 1, int j)) [0..<length ts])"
    by (simp add: distinct_map inj_on_def)
  ultimately show ?thesis by simp
qed

lemma distinct_keys_pages_records:
  "distinct (map (\<lambda>c. (ck_page_number c, ck_chunk_index c)) (pages_records split_text p texts))"
proof (induction texts arbitrary: p)
  case Nil
  then show ?case by simp
next
  case (Cons t texts)
  have "ck_page_number a \<noteq> ck_page_number b"
    if "a \<in> set (page_records p (split_text t))" "b \<in> set (pages_records split_text (p + 1) texts)"
    for a b
    using page_number_page_records [OF that(1)] page_number_pages_records [OF that(2)] by simp
  then show ?case
    by (auto simp: Cons.IH distinct_keys_page_records)
qed

text \<open>
  Claim C6. \<open>chunk_text\<close> returns chunk records unless the overlap exceeds the chunk size
  (then the splitter cannot be built and no record is produced). For every page position
  \<open>p\<close> of the input, the chunk records tagged with page number \<open>p + 1\<close> are exactly the
  pieces of the page at position \<open>p\<close>, in order, and their chunk indices are
  \<open>0, 1, 2, ...\<close> without gap or repetition; every record's page number is the 1-based
  position of a page; and no two records share page number and chunk index.
\<close>

theorem chunk_text_index_contiguous:
  assumes "p < length texts"
  shows "(case chunk_text split_fn texts chunk_size chunk_overlap of
            Inl e \<Rightarrow> chunk_size < chunk_overlap
          | Inr chunks \<Rightarrow>
              chunk_overlap \<le> chunk_size \<and>
              (let from_page = filter (\<lambda>c. ck_page_number c = int p + 1) chunks
               in map ck_chunk_index from_page = map int [0..<length from_page]
                \<and> map ck_text from_page =
                    (if texts ! p = [] then [] else split_fn chunk_size chunk_overlap (texts ! p))
                \<and> (\<forall>c\<in>set chunks. 1 \<le> ck_page_number c \<and> ck_page_number c \<le> int (length texts))
                \<and> distinct (map (\<lambda>c. (ck_page_number c, ck_chunk_index c)) chunks)))"
proof (cases "chunk_size < chunk_overlap")
  case True
  then show ?thesis by (simp add: chunk_text_def)
next
  case False
  let ?split = "split_fn chunk_size chunk_overlap"
  have all: "chunk_text split_fn texts chunk_size chunk_overlap = Inr (pages_records ?split 0 texts)"
    using False by (simp add: chunk_text_def chunk_pages_eq)
  have page: "filter (\<lambda>c. ck_page_number c = int p + 1) (pages_records ?split 0 texts)
      = (if texts ! p = [] then [] else page_records (int p) (?split (texts ! p)))"
    using filter_pages_records [OF assms, of 0 ?split] by simp
  have rng: "\<forall>c\<in>set (pages_records ?split 0 texts).
      1 \<le> ck_page_number c \<and> ck_page_number c \<le> int (length texts)"
    using page_number_pages_records [of _ ?split 0 texts] by auto
  have "chunk_overlap \<le> chunk_size" using False by simp
  then show ?thesis
    unfolding all sum.case Let_def page using rng
    by (simp add: chunk_index_page_records text_page_records length_page_records
        distinct_keys_pages_records)
qed

theorem chunk_text_index_contiguous_witness:
  "(1::nat) < length [''ab'', ''cd  ''] \<and>
   chunk_text one_piece_splitter [''ab'', ''cd  ''] 1000 200 =
     Inr [\<lparr>ck_text = ''ab'', ck_page_number = 1, ck_chunk_index = 0, ck_embedding = None\<rparr>,
          \<lparr>ck_text = ''cd'', ck_page_number = 2, ck_chunk_index = 0, ck_embedding = None\<rparr>]"
proof -
  have h: "(1::nat) < length [''ab'', ''cd  '']" by simp
  have ev: "chunk_text one_piece_splitter [''ab'', ''cd  ''] 1000 200 =
     Inr [\<lparr>ck_text = ''ab'', ck_page_number = 1, ck_chunk_index = 0, ck_embedding = None\<rparr>,
          \<lparr>ck_text = ''cd'', ck_page_number = 2, ck_chunk_index = 0, ck_embedding = None\<rparr>]"
    by (simp add: chunk_text_def one_piece_splitter_def py_strip_def py_isspace_def)
  show ?thesis
    using h chunk_text_index_contiguous [OF h, where split_fn = one_piece_splitter
        and chunk_size = 1000 and chunk_overlap = 200]
    by (simp add: ev)
qed




section \<open>Text extraction\<close>

lemma extract_pages_eq:
  "extract_pages poppler_available page_texts n pages =
     page_texts @ map (\<lambda>(k, page). extract_page_text poppler_available (n + int k) page)
                    (enumerate 0 pages)"
proof (induction pages arbitrary: page_texts n)
  case Nil
  then show ?case by simp
next
  case (Cons page pages)
  show ?case
    by (simp add: Cons.IH enumerate_Suc_eq map_map comp_def case_prod_beta add.assoc)
qed

lemma extract_pages_nth:
  assumes "i < length pages"
  shows "extract_pages poppler_available [] 0 pages ! i =
           extract_page_text poppler_available (int i) (pages ! i)"
  using assms by (simp add: extract_pages_eq nth_enumerate_eq)

text \<open>
  Claim C10. For a readable PDF, \<open>extract_text_from_pdf\<close> returns the pair of the page
  texts and the page count, the list has one entry per page, in page order, and the entry
  of page \<open>i\<close> is: the extracted text when it is not blank (blank: nothing is left when
  the whitespace, U+0085 and U+00A0 included, is stripped); for a blank page the
  ``Poppler not available'' placeholder when OCR is unavailable, and the ``Failed to
  extract'' placeholder when OCR is available and raises. No page shrinks the list.
\<close>

theorem extract_text_from_pdf_one_entry_per_page:
  "\<exists>page_texts.
     extract_text_from_pdf poppler_available (Pdf pages) = Inr (page_texts, int (length pages))
     \<and> length page_texts = length pages
     \<and> (\<forall>i<length pages.
          page_texts ! i = extract_page_text poppler_available (int i) (pages ! i)
          \<and> (py_strip (pg_extract_text (pages ! i)) \<noteq> [] \<longrightarrow>
                page_texts ! i = pg_extract_text (pages ! i))
          \<and> (py_strip (pg_extract_text (pages ! i)) = [] \<and> \<not> poppler_available \<longrightarrow>
                page_texts ! i =
                  ''[Text extraction failed for page '' @ str_int (int i + 1)
                    @ ''. Poppler not available for OCR.]'')
          \<and> (\<forall>e. py_strip (pg_extract_text (pages ! i)) = [] \<and> poppler_available
                    \<and> pg_ocr (pages ! i) = OcrException e \<longrightarrow>
                page_texts ! i =
                  ''[Failed to extract text from page '' @ str_int (int i + 1) @ '']''))"
proof -
  let ?texts = "extract_pages poppler_available [] 0 pages"
  have res: "extract_text_from_pdf poppler_available (Pdf pages) = Inr (?texts, int (length pages))"
    by (simp add: extract_text_from_pdf_def)
  have len: "length ?texts = length pages"
    by (simp add: extract_pages_eq)
  have entries: "?texts ! i = extract_page_text poppler_available (int i) (pages ! i)
      \<and> (py_strip (pg_extract_text (pages ! i)) \<noteq> [] \<longrightarrow> ?texts ! i = pg_extract_text (pages ! i))
      \<and> (py_strip (pg_extract_text (pages ! i)) = [] \<and> \<not> poppler_available \<longrightarrow>
            ?texts ! i = ''[Text extraction failed for page '' @ str_int (int i + 1)
                           @ ''. Poppler not available for OCR.]'')
      \<and> (\<forall>e. py_strip (pg_extract_text (pages ! i)) = [] \<and> poppler_available
                \<and> pg_ocr (pages ! i) = OcrException e \<longrightarrow>
            ?texts ! i = ''[Failed to extract text from page '' @ str_int (int i + 1) @ '']'')"
    if "i < length pages" for i
    unfolding extract_pages_nth [OF that]
    by (simp add: extract_page_text_def Let_def)
  from res len entries show ?thesis by blast
qed

theorem extract_text_from_pdf_one_entry_per_page_witness:
  "extract_text_from_pdf False
     (Pdf [\<lparr>pg_extract_text = ''Alpha Beta'', pg_ocr = OcrNoImages\<rparr>,
           \<lparr>pg_extract_text = [CHR 0xA0, CHR '' ''], pg_ocr = OcrException ''no tesseract''\<rparr>])
   = Inr ([''Alpha Beta'', ''[Text extraction failed for page 2. Poppler not available for OCR.]''], 2)"
proof -
  let ?pages = "[\<lparr>pg_extract_text = ''Alpha Beta'', pg_ocr = OcrNoImages\<rparr>,
                 \<lparr>pg_extract_text = [CHR 0xA0, CHR '' ''], pg_ocr = OcrException ''no tesseract''\<rparr>]"
  obtain page_texts where
    res: "extract_text_from_pdf False (Pdf ?pages) = Inr (page_texts, int (length ?pages))"
    and len: "length page_texts = length ?pages"
    and entries: "\<forall>i<length ?pages. page_texts ! i = extract_page_text False (int i) (?pages ! i)"
    using extract_text_from_pdf_one_entry_per_page [of False ?pages] by blast
  have e0: "page_texts ! 0 = ''Alpha Beta''"
    using entries [rule_format, of 0]
    by (simp add: extract_page_text_def py_strip_def py_isspace_def)
  have e1: "page_texts ! 1 = ''[Text extraction failed for page 2. Poppler not available for OCR.]''"
    using entries [rule_format, of 1]
    by (simp add: extract_page_text_def py_strip_def py_isspace_def str_int_def char_of_digits str_nat.simps)
  from len have "page_texts = [page_texts ! 0, page_texts ! 1]"
    by (cases page_texts; cases "tl page_texts") auto
  with e0 e1 res show ?thesis by simp
qed

section \<open>The ingestion endpoint\<close>

text \<open>
  Claim C9. A request with exactly one file is rejected with status 400 and the world is
  unchanged: no temporary file, no external call, no row.
\<close>

theorem ingest_single_document_rejected:
  assumes "length files = 1"
  shows "ingest_documents env files w =
           (Inl (HTTPException 400 ''Please upload at least 2 PDF files''), w)"
  using assms by (simp add: ingest_documents_def)

theorem ingest_single_document_rejected_witness:
  "ingest_documents (example_env stable_engine (\<lambda>t. replicate 1536 1))
     [\<lparr>uf_filename = ''a.pdf'',
       uf_content = Pdf [\<lparr>pg_extract_text = ''Alpha Beta'', pg_ocr = OcrNoImages\<rparr>]\<rparr>]
     empty_world
   = (Inl (HTTPException 400 ''Please upload at least 2 PDF files''), empty_world)"
  by (rule ingest_single_document_rejected) simp

section \<open>The vector store: search\<close>

lemma sql_order_by_limit_stable_engine: "sql_order_by_limit stable_engine"
  unfolding sql_order_by_limit_def stable_engine_def
proof (intro allI)
  fix key :: "'a \<Rightarrow> real" and k :: nat and rows :: "'a list"
  have "mset (sort_key key rows) = mset rows \<and> sorted (map key (sort_key key rows))
      \<and> take k (sort_key key rows) = take k (sort_key key rows)"
    by simp
  then show "\<exists>ordered. mset ordered = mset rows \<and> sorted (map key ordered)
      \<and> take k (sort_key key rows) = take k ordered"
    by (rule exI)
qed

lemma order_by_limit_cases:
  assumes "sql_order_by_limit obl"
  obtains ordered where "mset ordered = mset rows" and "sorted (map key ordered)"
    and "obl key k rows = take k ordered"
  using assms unfolding sql_order_by_limit_def by blast

lemma order_by_limit_empty: "sql_order_by_limit obl \<Longrightarrow> obl key k [] = []"
  by (erule order_by_limit_cases [where key = key and k = k and rows = "[]"]) simp





text \<open>The search reads the chunk table and nothing else of the world.\<close>

lemma semantic_search_reads_chunks:
  "w_document_chunks w' = w_document_chunks w
     \<Longrightarrow> semantic_search env q k w' = semantic_search env q k w"
  by (simp add: semantic_search_def cong: option.case_cong)

lemma semantic_search_calls [simp]:
  "semantic_search env q k (w\<lparr>w_calls := cs\<rparr>) = semantic_search env q k w"
  by (rule semantic_search_reads_chunks) simp

lemma retrieve_relevant_chunks_eq:
  "retrieve_relevant_chunks env query top_k w =
     ((case embed_query env query of
         Inl e \<Rightarrow> Inl e
       | Inr query_embedding \<Rightarrow>
           map_sum (\<lambda>e. e) (map format_result)
             (semantic_search env query_embedding top_k w)),
      w\<lparr>w_calls := w_calls w @ [EmbedQuery query]\<rparr>)"
  by (simp add: retrieve_relevant_chunks_def generate_query_embedding_def
      split: sum.splits)







section \<open>The Retriever and the Answer Synthesizer\<close>

text \<open>
  Claim C4 as stated fails: with \<open>top_k = 0\<close> the retrieve operation returns an empty list,
  not an error, after it has called the embedding provider.
\<close>

theorem retrieve_top_k_zero_counterexample:
  "retrieve_relevant_chunks (example_env stable_engine example_embedding) ''What is Alpha?'' 0
     (two_doc_world unit0 unit1)
   = (Inr [], (two_doc_world unit0 unit1)\<lparr>w_calls := [EmbedQuery ''What is Alpha?'']\<rparr>)"
  by (simp add: retrieve_relevant_chunks_eq semantic_search_def two_doc_world_eq length_units)

text \<open>
  Claim C4 as amended. The retrieve operation does not check \<open>top_k\<close>: for \<open>top_k \<le> 0\<close> it
  calls the embedding provider first; the provider's error is passed on; otherwise
  \<open>top_k = 0\<close> gives the empty list, and \<open>top_k < 0\<close> gives the error of the database, which
  refuses a negative limit.
\<close>

theorem retrieve_top_k_not_positive:
  assumes "top_k \<le> 0"
  shows "retrieve_relevant_chunks env query top_k w =
           ((case embed_query env query of
               Inl e \<Rightarrow> Inl e
             | Inr query_embedding \<Rightarrow>
                 if top_k = 0 then Inr []
                 else Inl (DataError ''LIMIT must not be negative'')),
            w\<lparr>w_calls := w_calls w @ [EmbedQuery query]\<rparr>)"
  using assms
  by (auto simp: retrieve_relevant_chunks_eq semantic_search_def split: sum.splits)

theorem retrieve_top_k_not_positive_witness:
  "retrieve_relevant_chunks (example_env stable_engine example_embedding) ''What is Alpha?'' (- 1)
     (two_doc_world unit0 unit1)
   = (Inl (DataError ''LIMIT must not be negative''),
      (two_doc_world unit0 unit1)\<lparr>w_calls := [EmbedQuery ''What is Alpha?'']\<rparr>)"
proof -
  have "(- 1 :: int) \<le> 0" by simp
  from retrieve_top_k_not_positive [OF this] show ?thesis
    by (simp add: two_doc_world_eq length_units)
qed

text \<open>
  Claim C1. Over an empty corpus, the embedding provider answering, \<open>answer_query\<close> returns
  the fixed answer with an empty list of sources; the only external call made is the
  embedding of the query: the chat completion provider is not called, and no error is
  returned.
\<close>

theorem answer_query_empty_corpus:
  assumes "sql_order_by_limit (order_by_limit env)"
    and "w_document_chunks w = []"
    and "embed_query env query = Inr query_embedding"
  shows "answer_query env query w =
           (Inr \<lparr>ans_answer = NO_INFORMATION, ans_sources = []\<rparr>,
            w\<lparr>w_calls := w_calls w @ [EmbedQuery query]\<rparr>)"
proof -
  have "semantic_search env query_embedding 5 w = Inr []"
    using assms(1,2) by (simp add: semantic_search_def order_by_limit_empty)
  then have "retrieve_relevant_chunks env query 5 w =
      (Inr [], w\<lparr>w_calls := w_calls w @ [EmbedQuery query]\<rparr>)"
    using assms(3) by (simp add: retrieve_relevant_chunks_eq)
  then show ?thesis
    by (simp add: answer_query_def)
qed

theorem answer_query_empty_corpus_witness:
  "answer_query (example_env stable_engine example_embedding) ''What is Alpha?'' empty_world
   = (Inr \<lparr>ans_answer =
             ''I couldn'' @ [CHR 0x27]
               @ ''t find any relevant information in the documents to answer your question.'',
           ans_sources = []\<rparr>,
      empty_world\<lparr>w_calls := [EmbedQuery ''What is Alpha?'']\<rparr>)"
proof -
  let ?env = "example_env stable_engine example_embedding"
  have ob: "sql_order_by_limit (order_by_limit ?env)"
    by (simp add: sql_order_by_limit_stable_engine)
  have em: "w_document_chunks empty_world = []" by (simp add: empty_world_def)
  have eq: "embed_query ?env ''What is Alpha?'' = Inr (example_embedding ''What is Alpha?'')"
    by simp
  from answer_query_empty_corpus [OF ob em eq] show ?thesis
    by (simp add: NO_INFORMATION_def empty_world_def)
qed

lemma one_chunk_world_chunks:
  "w_document_chunks (one_chunk_world t unit0) =
     [\<lparr>dc_id = 1, dc_document_id = 1, dc_text = t, dc_chunk_index = 0, dc_page_number = 1,
       dc_embedding = unit0\<rparr>]"
  by (simp add: one_chunk_world_def store_document_def store_chunk_def empty_world_def
      EMBEDDING_DIM_def length_units Let_def)

lemma answer_query_one_chunk_world:
  "fst (answer_query (example_env stable_engine example_embedding) q (one_chunk_world t unit0))
   = Inr \<lparr>ans_answer = ''An answer.'',
          ans_sources = [format_source \<lparr>rc_text = t, rc_document_id = 1, rc_page_number = 1,
                                        rc_chunk_index = 0\<rparr>]\<rparr>"
  by (simp add: answer_query_def retrieve_relevant_chunks_eq semantic_search_def
      one_chunk_world_chunks stable_engine_def format_result_def generate_answer_def
      length_units)

text \<open>
  Claim C8 as stated fails for a chunk text longer than 200 characters. The snippet is
  the first 200 characters followed by three dots: for a text of 203 characters that ends
  in three dots the snippet is the full stored text, and for a text of 201 characters the
  snippet is no prefix of the text (it is longer than the text).
\<close>

theorem answer_query_snippet_counterexample:
  "fst (answer_query (example_env stable_engine example_embedding) ''What is Alpha?''
          (one_chunk_world (replicate 200 (CHR ''a'') @ ''...'') unit0))
     = Inr \<lparr>ans_answer = ''An answer.'',
            ans_sources = [\<lparr>src_document_id = 1, src_page_number = 1,
                            src_text_snippet = replicate 200 (CHR ''a'') @ ''...''\<rparr>]\<rparr>
   \<and> length (replicate 200 (CHR ''a'') @ ''...'') = 203
   \<and> fst (answer_query (example_env stable_engine example_embedding) ''What is Alpha?''
          (one_chunk_world (replicate 201 (CHR ''a'')) unit0))
     = Inr \<lparr>ans_answer = ''An answer.'',
            ans_sources = [\<lparr>src_document_id = 1, src_page_number = 1,
                            src_text_snippet = replicate 200 (CHR ''a'') @ ''...''\<rparr>]\<rparr>
   \<and> \<not> prefix (replicate 200 (CHR ''a'') @ ''...'') (replicate 201 (CHR ''a''))"
proof -
  have "\<not> prefix (replicate 200 (CHR ''a'') @ ''...'') (replicate 201 (CHR ''a''))"
    using prefix_length_le [of "replicate 200 (CHR ''a'') @ ''...''" "replicate 201 (CHR ''a'')"]
    by auto
  then show ?thesis
    by (simp add: answer_query_one_chunk_world format_source_def)
qed

text \<open>
  Claim C8 as amended. For a non-empty retrieval result, the chat completion provider
  answering, the sources are the retrieved chunks in order, each with its document id,
  its page number and a snippet: the full text when it has at most 200 characters, and
  otherwise its first 200 characters followed by three dots, 203 characters in all.
\<close>

theorem answer_query_sources:
  assumes "retrieve_relevant_chunks env query 5 w = (Inr chunks, w1)"
    and "chunks \<noteq> []"
    and "chat_completion env (user_message query chunks) = Inr answer"
  shows "\<exists>sources w2.
           answer_query env query w = (Inr \<lparr>ans_answer = answer, ans_sources = sources\<rparr>, w2)
         \<and> length sources = length chunks
         \<and> (\<forall>i<length chunks.
               src_document_id (sources ! i) = rc_document_id (chunks ! i)
             \<and> src_page_number (sources ! i) = rc_page_number (chunks ! i)
             \<and> (length (rc_text (chunks ! i)) \<le> 200 \<longrightarrow>
                   src_text_snippet (sources ! i) = rc_text (chunks ! i))
             \<and> (200 < length (rc_text (chunks ! i)) \<longrightarrow>
                   src_text_snippet (sources ! i) = take 200 (rc_text (chunks ! i)) @ ''...''
                 \<and> length (src_text_snippet (sources ! i)) = 203))"
proof -
  let ?sources = "map format_source chunks"
  have "answer_query env query w =
      (Inr \<lparr>ans_answer = answer, ans_sources = ?sources\<rparr>,
       w1\<lparr>w_calls := w_calls w1 @ [ChatCompletion (user_message query chunks)]\<rparr>)"
    using assms by (simp add: answer_query_def generate_answer_def)
  moreover have "length ?sources = length chunks" by simp
  moreover have "\<forall>i<length chunks.
               src_document_id (?sources ! i) = rc_document_id (chunks ! i)
             \<and> src_page_number (?sources ! i) = rc_page_number (chunks ! i)
             \<and> (length (rc_text (chunks ! i)) \<le> 200 \<longrightarrow>
                   src_text_snippet (?sources ! i) = rc_text (chunks ! i))
             \<and> (200 < length (rc_text (chunks ! i)) \<longrightarrow>
                   src_text_snippet (?sources ! i) = take 200 (rc_text (chunks ! i)) @ ''...''
                 \<and> length (src_text_snippet (?sources ! i)) = 203)"
    by (simp add: format_source_def)
  ultimately show ?thesis by blast
qed

theorem answer_query_sources_witness:
  "answer_query (example_env stable_engine example_embedding) ''What is Alpha?''
     (one_chunk_world (replicate 201 (CHR ''a'')) unit0)
   = (Inr \<lparr>ans_answer = ''An answer.'',
           ans_sources = [\<lparr>src_document_id = 1, src_page_number = 1,
                           src_text_snippet = replicate 200 (CHR ''a'') @ ''...''\<rparr>]\<rparr>,
      snd (answer_query (example_env stable_engine example_embedding) ''What is Alpha?''
             (one_chunk_world (replicate 201 (CHR ''a'')) unit0)))"
proof -
  let ?env = "example_env stable_engine example_embedding"
  let ?w = "one_chunk_world (replicate 201 (CHR ''a'')) unit0"
  let ?chunks = "[\<lparr>rc_text = replicate 201 (CHR ''a''), rc_document_id = 1, rc_page_number = 1,
                   rc_chunk_index = 0\<rparr>]"
  have r: "retrieve_relevant_chunks ?env ''What is Alpha?'' 5 ?w =
      (Inr ?chunks, ?w\<lparr>w_calls := w_calls ?w @ [EmbedQuery ''What is Alpha?'']\<rparr>)"
    by (simp add: retrieve_relevant_chunks_eq semantic_search_def one_chunk_world_chunks
        stable_engine_def format_result_def length_units)
  have ne: "?chunks \<noteq> []" by simp
  have c: "chat_completion ?env (user_message ''What is Alpha?'' ?chunks) = Inr ''An answer.''"
    by simp
  obtain sources w2 where
    res: "answer_query ?env ''What is Alpha?'' ?w
            = (Inr \<lparr>ans_answer = ''An answer.'', ans_sources = sources\<rparr>, w2)"
    and len: "length sources = length ?chunks"
    and each: "\<forall>i<length ?chunks.
               src_document_id (sources ! i) = rc_document_id (?chunks ! i)
             \<and> src_page_number (sources ! i) = rc_page_number (?chunks ! i)
             \<and> (length (rc_text (?chunks ! i)) \<le> 200 \<longrightarrow>
                   src_text_snippet (sources ! i) = rc_text (?chunks ! i))
             \<and> (200 < length (rc_text (?chunks ! i)) \<longrightarrow>
                   src_text_snippet (sources ! i) = take 200 (rc_text (?chunks ! i)) @ ''...''
                 \<and> length (src_text_snippet (sources ! i)) = 203)"
    using answer_query_sources [OF r ne c] by blast
  from len obtain s where s: "sources = [s]"
    by (cases sources) auto
  from each s have "src_document_id s = 1" "src_page_number s = 1"
    "src_text_snippet s = replicate 200 (CHR ''a'') @ ''...''"
    by simp_all
  then have "s = \<lparr>src_document_id = 1, src_page_number = 1,
                  src_text_snippet = replicate 200 (CHR ''a'') @ ''...''\<rparr>"
    by (cases s) simp
  with res s show ?thesis by simp
qed

section \<open>Ingestion: what is written\<close>







lemma chunks_of_append [simp]:
  "chunks_of d (rows @ rows') = chunks_of d rows @ chunks_of d rows'"
  by (simp add: chunks_of_def)








end
